theory Spec2Isabelle
  imports Complex_Main
begin

section \<open>JavaScript values\<close>

text \<open>
  The panel (\<^verbatim>\<open>src/frontend/src/App.js\<close>) is one React function component. Its state
  hooks hold JavaScript values, so the model is dynamically typed like the source: a
  configuration field can hold a string or a number, a status snapshot is whatever JSON
  the remote side sent.

  A number is a finite value, an infinity or NaN. Finite values are kept as rationals
  (every double is one); rounding and the sign of zero are not modelled, since the
  program only stores, tests for truthiness and prints numbers.
\<close>

datatype jsnum = NaN | PosInf | NegInf | Fin rat

datatype jsval =
    Undefined
  | Null
  | Bool bool
  | Number jsnum
  | Str string
  | Arr "jsval list"
  | Obj "(string \<times> jsval) list"

text \<open>ToBoolean: what \<^verbatim>\<open>!x\<close>, \<^verbatim>\<open>x && y\<close> and \<^verbatim>\<open>x || y\<close> test.\<close>

fun truthy :: "jsval \<Rightarrow> bool" where
  "truthy Undefined = False"
| "truthy Null = False"
| "truthy (Bool b) = b"
| "truthy (Number n) = (n \<noteq> NaN \<and> n \<noteq> Fin 0)"
| "truthy (Str s) = (s \<noteq> [])"
| "truthy (Arr vs) = True"
| "truthy (Obj ps) = True"

text \<open>
  An object is its list of own properties in insertion order. Reading a missing
  property gives \<^verbatim>\<open>undefined\<close>; \<^verbatim>\<open>{...prev, [name]: v}\<close> replaces the property in
  place when it exists and adds it at the end otherwise.
\<close>

definition obj_get :: "(string \<times> jsval) list \<Rightarrow> string \<Rightarrow> jsval" where
  "obj_get ps k = (case map_of ps k of None \<Rightarrow> Undefined | Some v \<Rightarrow> v)"

fun obj_set :: "string \<Rightarrow> jsval \<Rightarrow> (string \<times> jsval) list \<Rightarrow> (string \<times> jsval) list" where
  "obj_set k v [] = [(k, v)]"
| "obj_set k v ((k', v') # ps) = (if k' = k then (k, v) # ps else (k', v') # obj_set k v ps)"

text \<open>
  What the engine and the build environment supply: the environment variable
  \<^verbatim>\<open>REACT_APP_BACKEND_URL\<close> (\<open>None\<close> when unset), the built-in \<^verbatim>\<open>parseFloat\<close>, the
  printing of a number, and the message of the TypeError thrown when a property of
  \<^verbatim>\<open>null\<close> or \<^verbatim>\<open>undefined\<close> is read. They are parameters of the model.
\<close>

record runtime =
  REACT_APP_BACKEND_URL :: "string option"
  parseFloat :: "string \<Rightarrow> jsnum"
  number_toString :: "jsnum \<Rightarrow> string"
  typeError_message :: "jsval \<Rightarrow> string \<Rightarrow> string"

text \<open>
  \<open>read_prop v k\<close> is \<^verbatim>\<open>v.k\<close> for a value that is neither \<^verbatim>\<open>null\<close> nor \<^verbatim>\<open>undefined\<close>, for the
  property names this program reads (\<^verbatim>\<open>detail\<close>, \<^verbatim>\<open>running\<close>, \<^verbatim>\<open>symbol\<close>, ...), none
  of which is a built-in property of strings, arrays or \<^verbatim>\<open>Object.prototype\<close>.
  \<open>get_prop\<close> adds the TypeError of reading a property of \<^verbatim>\<open>null\<close> or \<^verbatim>\<open>undefined\<close>:
  \<open>Inl\<close> carries the thrown error's message.
\<close>

fun read_prop :: "jsval \<Rightarrow> string \<Rightarrow> jsval" where
  "read_prop (Obj ps) k = obj_get ps k"
| "read_prop v k = Undefined"

definition nullish :: "jsval \<Rightarrow> bool" where
  "nullish v = (v = Undefined \<or> v = Null)"

definition get_prop :: "runtime \<Rightarrow> jsval \<Rightarrow> string \<Rightarrow> string + jsval" where
  "get_prop rt v k = (if nullish v then Inl (typeError_message rt v k) else Inr (read_prop v k))"

text \<open>Joining strings with a separator, as \<^verbatim>\<open>Array.prototype.join\<close> does.\<close>

fun join :: "string \<Rightarrow> string list \<Rightarrow> string" where
  "join sep [] = []"
| "join sep [s] = s"
| "join sep (s # t # ts) = s @ sep @ join sep (t # ts)"

text \<open>
  ToString, which a template literal applies to each \<^verbatim>\<open>${...}\<close>: an array prints its
  elements separated by commas, with \<^verbatim>\<open>null\<close> and \<^verbatim>\<open>undefined\<close> elements empty; a
  plain object prints as \<^verbatim>\<open>[object Object]\<close>.
\<close>

fun to_string :: "runtime \<Rightarrow> jsval \<Rightarrow> string"
  and elems_to_string :: "runtime \<Rightarrow> jsval list \<Rightarrow> string list" where
  "to_string rt Undefined = ''undefined''"
| "to_string rt Null = ''null''"
| "to_string rt (Bool b) = (if b then ''true'' else ''false'')"
| "to_string rt (Number n) = number_toString rt n"
| "to_string rt (Str s) = s"
| "to_string rt (Arr vs) = join '','' (elems_to_string rt vs)"
| "to_string rt (Obj ps) = ''[object Object]''"
| "elems_to_string rt [] = []"
| "elems_to_string rt (v # vs) =
     (if nullish v then [] else to_string rt v) # elems_to_string rt vs"

text \<open>
  \<^verbatim>\<open>xs.slice(start)\<close>: a negative start counts from the end and is clamped at the
  beginning of the array, a start past the end gives the empty array.
\<close>

definition slice :: "int \<Rightarrow> 'a list \<Rightarrow> 'a list" where
  "slice start xs =
     (let len = int (length xs);
          k = (if start < 0 then max (len + start) 0 else min start len)
      in drop (nat k) xs)"


section \<open>State of the panel and its effects\<close>

record log_entry =
  timestamp :: string
  message :: string
  type :: string

record request =
  http_method :: string
  url :: string
  headers :: "(string \<times> string) list"
  body :: "jsval option"

text \<open>
  A response has a status code and a body; \<open>json\<close> is what \<^verbatim>\<open>await response.json()\<close>
  gives: the parsed value, or \<open>Inl\<close> the message of the error it rejects with when the
  body is not JSON. \<^verbatim>\<open>response.ok\<close> is true for the status codes 200 to 299. A call of
  \<^verbatim>\<open>fetch\<close> either rejects (no response at all) or resolves to a response.
\<close>

record response =
  status :: nat
  json :: "string + jsval"

definition ok :: "response \<Rightarrow> bool" where
  "ok r = (200 \<le> status r \<and> status r \<le> 299)"

datatype fetch_outcome = Rejected string | Responded response

text \<open>
  The four state hooks of \<^verbatim>\<open>App\<close> (\<open>config\<close>, \<open>botStatus\<close>, \<open>logs\<close>, \<open>isLoading\<close>)
  together with what the panel has done to the outside: the requests it has sent and the
  lines it has written to the console.
\<close>

record world =
  config :: "(string \<times> jsval) list"
  botStatus :: jsval
  logs :: "log_entry list"
  isLoading :: bool
  sent :: "request list"
  console :: "(string \<times> string) list"

text \<open>
  A handler is a list of effects in the order the source performs them: the state
  setters it calls, the requests it issues and its console output. \<open>SetConfig name v\<close>
  is \<^verbatim>\<open>setConfig(prev => ({...prev, [name]: v}))\<close> and \<open>SetLogs e\<close> is
  \<^verbatim>\<open>setLogs(prev => [...prev.slice(-99), e])\<close>; the other two setters store a value.
\<close>

datatype effect =
    SetConfig string jsval
  | SetBotStatus jsval
  | SetLogs log_entry
  | SetIsLoading bool
  | Fetch request
  | ConsoleError string string

fun apply_effect :: "world \<Rightarrow> effect \<Rightarrow> world" where
  "apply_effect s (SetConfig name v) = s\<lparr>config := obj_set name v (config s)\<rparr>"
| "apply_effect s (SetBotStatus v) = s\<lparr>botStatus := v\<rparr>"
| "apply_effect s (SetLogs e) = s\<lparr>logs := slice (- 99) (logs s) @ [e]\<rparr>"
| "apply_effect s (SetIsLoading b) = s\<lparr>isLoading := b\<rparr>"
| "apply_effect s (Fetch r) = s\<lparr>sent := sent s @ [r]\<rparr>"
| "apply_effect s (ConsoleError label m) = s\<lparr>console := console s @ [(label, m)]\<rparr>"

definition run :: "world \<Rightarrow> effect list \<Rightarrow> world" where
  "run s es = foldl apply_effect s es"

definition network_calls :: "effect list \<Rightarrow> request list" where
  "network_calls es = concat (map (\<lambda>e. case e of Fetch r \<Rightarrow> [r] | _ \<Rightarrow> []) es)"

definition log_appends :: "effect list \<Rightarrow> log_entry list" where
  "log_appends es = concat (map (\<lambda>e. case e of SetLogs l \<Rightarrow> [l] | _ \<Rightarrow> []) es)"

text \<open>The state at mount (lines 5 to 20).\<close>

definition initial :: world where
  "initial =
     \<lparr>config =
        [(''api_key'', Str ''''), (''secret_key'', Str ''''), (''symbol'', Str ''BTCUSDT''),
         (''buy_quantity'', Number (Fin (1 / 1000))),
         (''sell_quantity'', Number (Fin (1 / 1000))),
         (''max_price_deviation'', Number (Fin (5 / 100)))],
      botStatus = Obj [(''running'', Bool False), (''message'', Str '''')],
      logs = [], isLoading = False, sent = [], console = []\<rparr>"

definition backendUrl :: "runtime \<Rightarrow> string" where
  "backendUrl rt =
     (case REACT_APP_BACKEND_URL rt of
        None \<Rightarrow> ''http://localhost:8001''
      | Some u \<Rightarrow> if u = [] then ''http://localhost:8001'' else u)"

section \<open>Text literals of the source\<close>

text \<open>
  The operator-visible texts of the source are Russian. Each constant below is the UTF-8
  encoding of one string literal of \<^verbatim>\<open>App.js\<close>, byte for byte; the comment gives its
  line, a transliteration and an English gloss.
\<close>

definition msg_enter_keys :: string where \<comment> \<open>line 55: Pozhaluysta, vvedite API klyuchi (Please enter the API keys)\<close>
  "msg_enter_keys =
     [CHR 0xD0, CHR 0x9F, CHR 0xD0, CHR 0xBE, CHR 0xD0, CHR 0xB6, CHR 0xD0, CHR 0xB0,
     CHR 0xD0, CHR 0xBB, CHR 0xD1, CHR 0x83, CHR 0xD0, CHR 0xB9, CHR 0xD1, CHR 0x81,
     CHR 0xD1, CHR 0x82, CHR 0xD0, CHR 0xB0] @ '', '' @ [CHR 0xD0, CHR 0xB2, CHR 0xD0,
     CHR 0xB2, CHR 0xD0, CHR 0xB5, CHR 0xD0, CHR 0xB4, CHR 0xD0, CHR 0xB8, CHR 0xD1,
     CHR 0x82, CHR 0xD0, CHR 0xB5] @ '' API '' @ [CHR 0xD0, CHR 0xBA, CHR 0xD0, CHR 0xBB,
     CHR 0xD1, CHR 0x8E, CHR 0xD1, CHR 0x87, CHR 0xD0, CHR 0xB8]"

definition msg_started :: string where \<comment> \<open>line 72: Bot zapushchen dlya pary (Bot started for pair), with the trailing space\<close>
  "msg_started =
     [CHR 0xD0, CHR 0x91, CHR 0xD0, CHR 0xBE, CHR 0xD1, CHR 0x82] @ '' '' @ [CHR 0xD0,
     CHR 0xB7, CHR 0xD0, CHR 0xB0, CHR 0xD0, CHR 0xBF, CHR 0xD1, CHR 0x83, CHR 0xD1,
     CHR 0x89, CHR 0xD0, CHR 0xB5, CHR 0xD0, CHR 0xBD] @ '' '' @ [CHR 0xD0, CHR 0xB4,
     CHR 0xD0, CHR 0xBB, CHR 0xD1, CHR 0x8F] @ '' '' @ [CHR 0xD0, CHR 0xBF, CHR 0xD0,
     CHR 0xB0, CHR 0xD1, CHR 0x80, CHR 0xD1, CHR 0x8B] @ '' ''"

definition msg_start_failed :: string where \<comment> \<open>line 75: Oshibka zapuska (Start error), colon, space\<close>
  "msg_start_failed =
     [CHR 0xD0, CHR 0x9E, CHR 0xD1, CHR 0x88, CHR 0xD0, CHR 0xB8, CHR 0xD0, CHR 0xB1,
     CHR 0xD0, CHR 0xBA, CHR 0xD0, CHR 0xB0] @ '' '' @ [CHR 0xD0, CHR 0xB7, CHR 0xD0,
     CHR 0xB0, CHR 0xD0, CHR 0xBF, CHR 0xD1, CHR 0x83, CHR 0xD1, CHR 0x81, CHR 0xD0,
     CHR 0xBA, CHR 0xD0, CHR 0xB0] @ '': ''"

definition msg_connection :: string where \<comment> \<open>lines 78 and 100: Oshibka soedineniya (Connection error), colon, space\<close>
  "msg_connection =
     [CHR 0xD0, CHR 0x9E, CHR 0xD1, CHR 0x88, CHR 0xD0, CHR 0xB8, CHR 0xD0, CHR 0xB1,
     CHR 0xD0, CHR 0xBA, CHR 0xD0, CHR 0xB0] @ '' '' @ [CHR 0xD1, CHR 0x81, CHR 0xD0,
     CHR 0xBE, CHR 0xD0, CHR 0xB5, CHR 0xD0, CHR 0xB4, CHR 0xD0, CHR 0xB8, CHR 0xD0,
     CHR 0xBD, CHR 0xD0, CHR 0xB5, CHR 0xD0, CHR 0xBD, CHR 0xD0, CHR 0xB8, CHR 0xD1,
     CHR 0x8F] @ '': ''"

definition msg_stopped :: string where \<comment> \<open>line 94: Bot ostanovlen (Bot stopped)\<close>
  "msg_stopped =
     [CHR 0xD0, CHR 0x91, CHR 0xD0, CHR 0xBE, CHR 0xD1, CHR 0x82] @ '' '' @ [CHR 0xD0,
     CHR 0xBE, CHR 0xD1, CHR 0x81, CHR 0xD1, CHR 0x82, CHR 0xD0, CHR 0xB0, CHR 0xD0,
     CHR 0xBD, CHR 0xD0, CHR 0xBE, CHR 0xD0, CHR 0xB2, CHR 0xD0, CHR 0xBB, CHR 0xD0,
     CHR 0xB5, CHR 0xD0, CHR 0xBD]"

definition msg_stop_failed :: string where \<comment> \<open>line 97: Oshibka ostanovki (Stop error), colon, space\<close>
  "msg_stop_failed =
     [CHR 0xD0, CHR 0x9E, CHR 0xD1, CHR 0x88, CHR 0xD0, CHR 0xB8, CHR 0xD0, CHR 0xB1,
     CHR 0xD0, CHR 0xBA, CHR 0xD0, CHR 0xB0] @ '' '' @ [CHR 0xD0, CHR 0xBE, CHR 0xD1,
     CHR 0x81, CHR 0xD1, CHR 0x82, CHR 0xD0, CHR 0xB0, CHR 0xD0, CHR 0xBD, CHR 0xD0,
     CHR 0xBE, CHR 0xD0, CHR 0xB2, CHR 0xD0, CHR 0xBA, CHR 0xD0, CHR 0xB8] @ '': ''"

definition label_state :: string where \<comment> \<open>line 221: Sostoyanie (State), colon\<close>
  "label_state =
     [CHR 0xD0, CHR 0xA1, CHR 0xD0, CHR 0xBE, CHR 0xD1, CHR 0x81, CHR 0xD1, CHR 0x82,
     CHR 0xD0, CHR 0xBE, CHR 0xD1, CHR 0x8F, CHR 0xD0, CHR 0xBD, CHR 0xD0, CHR 0xB8,
     CHR 0xD0, CHR 0xB5] @ '':''"

definition text_running :: string where \<comment> \<open>line 223: U+1F7E2 (green circle), space, Rabotaet (Running)\<close>
  "text_running =
     [CHR 0xF0, CHR 0x9F, CHR 0x9F, CHR 0xA2] @ '' '' @ [CHR 0xD0, CHR 0xA0, CHR 0xD0,
     CHR 0xB0, CHR 0xD0, CHR 0xB1, CHR 0xD0, CHR 0xBE, CHR 0xD1, CHR 0x82, CHR 0xD0,
     CHR 0xB0, CHR 0xD0, CHR 0xB5, CHR 0xD1, CHR 0x82]"

definition text_stopped :: string where \<comment> \<open>line 223: U+1F534 (red circle), space, Ostanovlen (Stopped)\<close>
  "text_stopped =
     [CHR 0xF0, CHR 0x9F, CHR 0x94, CHR 0xB4] @ '' '' @ [CHR 0xD0, CHR 0x9E, CHR 0xD1,
     CHR 0x81, CHR 0xD1, CHR 0x82, CHR 0xD0, CHR 0xB0, CHR 0xD0, CHR 0xBD, CHR 0xD0,
     CHR 0xBE, CHR 0xD0, CHR 0xB2, CHR 0xD0, CHR 0xBB, CHR 0xD0, CHR 0xB5, CHR 0xD0,
     CHR 0xBD]"

definition label_symbol :: string where \<comment> \<open>line 229: Para (Pair), colon\<close>
  "label_symbol =
     [CHR 0xD0, CHR 0x9F, CHR 0xD0, CHR 0xB0, CHR 0xD1, CHR 0x80, CHR 0xD0, CHR 0xB0] @
     '':''"

definition label_best_bid :: string where \<comment> \<open>line 236: Luchshaya pokupka (Best buy), colon\<close>
  "label_best_bid =
     [CHR 0xD0, CHR 0x9B, CHR 0xD1, CHR 0x83, CHR 0xD1, CHR 0x87, CHR 0xD1, CHR 0x88,
     CHR 0xD0, CHR 0xB0, CHR 0xD1, CHR 0x8F] @ '' '' @ [CHR 0xD0, CHR 0xBF, CHR 0xD0,
     CHR 0xBE, CHR 0xD0, CHR 0xBA, CHR 0xD1, CHR 0x83, CHR 0xD0, CHR 0xBF, CHR 0xD0,
     CHR 0xBA, CHR 0xD0, CHR 0xB0] @ '':''"

definition label_best_ask :: string where \<comment> \<open>line 243: Luchshaya prodazha (Best sell), colon\<close>
  "label_best_ask =
     [CHR 0xD0, CHR 0x9B, CHR 0xD1, CHR 0x83, CHR 0xD1, CHR 0x87, CHR 0xD1, CHR 0x88,
     CHR 0xD0, CHR 0xB0, CHR 0xD1, CHR 0x8F] @ '' '' @ [CHR 0xD0, CHR 0xBF, CHR 0xD1,
     CHR 0x80, CHR 0xD0, CHR 0xBE, CHR 0xD0, CHR 0xB4, CHR 0xD0, CHR 0xB0, CHR 0xD0,
     CHR 0xB6, CHR 0xD0, CHR 0xB0] @ '':''"

definition label_spread :: string where \<comment> \<open>line 250: Spred (Spread), colon\<close>
  "label_spread =
     [CHR 0xD0, CHR 0xA1, CHR 0xD0, CHR 0xBF, CHR 0xD1, CHR 0x80, CHR 0xD0, CHR 0xB5,
     CHR 0xD0, CHR 0xB4] @ '':''"

definition label_initial_price :: string where \<comment> \<open>line 257: Nachalnaya tsena (Initial price), colon\<close>
  "label_initial_price =
     [CHR 0xD0, CHR 0x9D, CHR 0xD0, CHR 0xB0, CHR 0xD1, CHR 0x87, CHR 0xD0, CHR 0xB0,
     CHR 0xD0, CHR 0xBB, CHR 0xD1, CHR 0x8C, CHR 0xD0, CHR 0xBD, CHR 0xD0, CHR 0xB0,
     CHR 0xD1, CHR 0x8F] @ '' '' @ [CHR 0xD1, CHR 0x86, CHR 0xD0, CHR 0xB5, CHR 0xD0,
     CHR 0xBD, CHR 0xD0, CHR 0xB0] @ '':''"

section \<open>The handlers\<close>

text \<open>
  \<open>fetchBotStatus\<close> (lines 30 to 38): one GET; the parsed body becomes the snapshot.
  Whatever \<^verbatim>\<open>fetch\<close> or \<^verbatim>\<open>response.json()\<close> rejects with is caught and written to the
  console. The status code of the response is not looked at.
\<close>

definition status_request :: "runtime \<Rightarrow> request" where
  "status_request rt =
     \<lparr>http_method = ''GET'', url = backendUrl rt @ ''/api/bot-status'', headers = [], body = None\<rparr>"

definition fetchBotStatus :: "runtime \<Rightarrow> fetch_outcome \<Rightarrow> effect list" where
  "fetchBotStatus rt poll =
     Fetch (status_request rt) #
     (case poll of
        Rejected m \<Rightarrow> [ConsoleError ''Error fetching bot status:'' m]
      | Responded response \<Rightarrow>
          (case json response of
             Inl m \<Rightarrow> [ConsoleError ''Error fetching bot status:'' m]
           | Inr parsed \<Rightarrow> [SetBotStatus parsed]))"

text \<open>
  \<open>addLog\<close> (lines 40 to 43). \<open>now\<close> is what \<^verbatim>\<open>new Date().toLocaleTimeString()\<close> returns
  at the call. The updater it passes to \<^verbatim>\<open>setLogs\<close> is \<open>SetLogs\<close> in \<open>apply_effect\<close>.
  Every call in the source passes the type, so the default \<^verbatim>\<open>'info'\<close> is never taken.
\<close>

definition addLog :: "string \<Rightarrow> string \<Rightarrow> string \<Rightarrow> effect list" where
  "addLog now msg ty = [SetLogs \<lparr>timestamp = now, message = msg, type = ty\<rparr>]"

text \<open>
  \<open>handleInputChange\<close> (lines 45 to 51) reads \<^verbatim>\<open>name\<close>, \<^verbatim>\<open>value\<close> and \<^verbatim>\<open>type\<close> of the
  input element that changed; \<^verbatim>\<open>value\<close> is always a string.
\<close>

definition handleInputChange :: "runtime \<Rightarrow> string \<Rightarrow> string \<Rightarrow> string \<Rightarrow> effect list" where
  "handleInputChange rt name val ty =
     [SetConfig name (if ty = ''number'' then Number (parseFloat rt val) else Str val)]"

text \<open>
  The six input elements of the form (lines 121 to 192), each with its \<^verbatim>\<open>name\<close> and
  \<^verbatim>\<open>type\<close> attribute, and the change event of the element called \<open>name\<close>: these are the
  only calls of \<open>handleInputChange\<close>.
\<close>

definition form_inputs :: "(string \<times> string) list" where
  "form_inputs =
     [(''api_key'', ''password''), (''secret_key'', ''password''), (''symbol'', ''text''),
      (''buy_quantity'', ''number''), (''sell_quantity'', ''number''),
      (''max_price_deviation'', ''number'')]"

definition onChange :: "runtime \<Rightarrow> string \<Rightarrow> string \<Rightarrow> effect list" where
  "onChange rt name val =
     (case map_of form_inputs name of
        None \<Rightarrow> []
      | Some ty \<Rightarrow> handleInputChange rt name val ty)"

fun onChanges :: "runtime \<Rightarrow> (string \<times> string) list \<Rightarrow> effect list" where
  "onChanges rt [] = []"
| "onChanges rt ((name, val) # evs) = onChange rt name val @ onChanges rt evs"

text \<open>
  A \<^verbatim>\<open>try\<close> block is the effects it performed and, when it threw, the message of the
  error; \<^verbatim>\<open>catch\<close> runs its handler on that message after the effects already done.
\<close>

definition try_catch :: "effect list \<times> string option \<Rightarrow> (string \<Rightarrow> effect list) \<Rightarrow> effect list" where
  "try_catch block handler =
     (case snd block of None \<Rightarrow> fst block | Some m \<Rightarrow> fst block @ handler m)"

text \<open>
  \<open>startBot\<close> (lines 53 to 82). \<open>cfg\<close> is the configuration of the render whose
  handler runs, \<open>post\<close> the outcome of the POST and \<open>poll\<close> the outcome of the status
  request that follows a success. The request carries the configuration object that
  \<^verbatim>\<open>JSON.stringify\<close> serialises, not the serialised text: on the wire a field holding
  NaN or an infinity is \<^verbatim>\<open>null\<close>. The body is parsed before \<^verbatim>\<open>response.ok\<close> is tested.
\<close>

definition start_request :: "runtime \<Rightarrow> (string \<times> jsval) list \<Rightarrow> request" where
  "start_request rt cfg =
     \<lparr>http_method = ''POST'', url = backendUrl rt @ ''/api/start-bot'',
      headers = [(''Content-Type'', ''application/json'')], body = Some (Obj cfg)\<rparr>"

definition startBot_try ::
  "runtime \<Rightarrow> (string \<times> jsval) list \<Rightarrow> string \<Rightarrow> fetch_outcome \<Rightarrow> fetch_outcome
     \<Rightarrow> effect list \<times> string option" where
  "startBot_try rt cfg now post poll =
     (let request = Fetch (start_request rt cfg)
      in case post of
           Rejected m \<Rightarrow> ([request], Some m)
         | Responded response \<Rightarrow>
             (case json response of
                Inl m \<Rightarrow> ([request], Some m)
              | Inr result \<Rightarrow>
                  if ok response
                  then (request #
                        addLog now (msg_started @ to_string rt (obj_get cfg ''symbol''))
                          ''success'' @
                        fetchBotStatus rt poll, None)
                  else (case get_prop rt result ''detail'' of
                          Inl m \<Rightarrow> ([request], Some m)
                        | Inr detail \<Rightarrow>
                            (request #
                             addLog now (msg_start_failed @ to_string rt detail) ''error'',
                             None))))"

definition startBot ::
  "runtime \<Rightarrow> (string \<times> jsval) list \<Rightarrow> string \<Rightarrow> fetch_outcome \<Rightarrow> fetch_outcome
     \<Rightarrow> effect list" where
  "startBot rt cfg now post poll =
     (if \<not> truthy (obj_get cfg ''api_key'') \<or> \<not> truthy (obj_get cfg ''secret_key'')
      then addLog now msg_enter_keys ''error''
      else SetIsLoading True #
           try_catch (startBot_try rt cfg now post poll)
             (\<lambda>m. addLog now (msg_connection @ m) ''error'') @
           [SetIsLoading False])"

text \<open>\<open>stopBot\<close> (lines 84 to 104): the same shape, with no precondition and no body.\<close>

definition stop_request :: "runtime \<Rightarrow> request" where
  "stop_request rt =
     \<lparr>http_method = ''POST'', url = backendUrl rt @ ''/api/stop-bot'', headers = [], body = None\<rparr>"

definition stopBot_try ::
  "runtime \<Rightarrow> string \<Rightarrow> fetch_outcome \<Rightarrow> fetch_outcome \<Rightarrow> effect list \<times> string option" where
  "stopBot_try rt now post poll =
     (let request = Fetch (stop_request rt)
      in case post of
           Rejected m \<Rightarrow> ([request], Some m)
         | Responded response \<Rightarrow>
             (case json response of
                Inl m \<Rightarrow> ([request], Some m)
              | Inr result \<Rightarrow>
                  if ok response
                  then (request # addLog now msg_stopped ''success'' @ fetchBotStatus rt poll,
                        None)
                  else (case get_prop rt result ''detail'' of
                          Inl m \<Rightarrow> ([request], Some m)
                        | Inr detail \<Rightarrow>
                            (request #
                             addLog now (msg_stop_failed @ to_string rt detail) ''error'',
                             None))))"

definition stopBot :: "runtime \<Rightarrow> string \<Rightarrow> fetch_outcome \<Rightarrow> fetch_outcome \<Rightarrow> effect list" where
  "stopBot rt now post poll =
     SetIsLoading True #
     try_catch (stopBot_try rt now post poll)
       (\<lambda>m. addLog now (msg_connection @ m) ''error'') @
     [SetIsLoading False]"


section \<open>What is rendered\<close>

text \<open>
  The render reads \<^verbatim>\<open>botStatus.running\<close> (lines 199, 207, 222), which throws when the
  snapshot is \<^verbatim>\<open>null\<close>; nothing is on screen then. Otherwise the two buttons are
  disabled as lines 199 and 207 say, and a disabled button does not call its handler.
  \<open>rendered\<close> covers that one failure of the render only: React also refuses a plain
  object as a child, which a snapshot with an object in a displayed field would give.
\<close>

definition rendered :: "world \<Rightarrow> bool" where
  "rendered s = (\<not> nullish (botStatus s))"

definition start_disabled :: "world \<Rightarrow> bool" where
  "start_disabled s = (isLoading s \<or> truthy (read_prop (botStatus s) ''running''))"

definition stop_disabled :: "world \<Rightarrow> bool" where
  "stop_disabled s = (isLoading s \<or> \<not> truthy (read_prop (botStatus s) ''running''))"

definition click_start ::
  "runtime \<Rightarrow> world \<Rightarrow> string \<Rightarrow> fetch_outcome \<Rightarrow> fetch_outcome \<Rightarrow> effect list" where
  "click_start rt s now post poll =
     (if rendered s \<and> \<not> start_disabled s then startBot rt (config s) now post poll else [])"

definition click_stop ::
  "runtime \<Rightarrow> world \<Rightarrow> string \<Rightarrow> fetch_outcome \<Rightarrow> fetch_outcome \<Rightarrow> effect list" where
  "click_stop rt s now post poll =
     (if rendered s \<and> \<not> stop_disabled s then stopBot rt now post poll else [])"

text \<open>
  The status grid (lines 219 to 261). A child of the grid is a status item, with its
  label and the value it shows, or the value that \<^verbatim>\<open>a && <div>...</div>\<close> leaves when
  \<^verbatim>\<open>a\<close> is falsy: \<^verbatim>\<open>&&\<close> gives its left operand then, and no item is built.
\<close>

datatype child = StatusItem string jsval | Bare jsval

definition js_and :: "jsval \<Rightarrow> child \<Rightarrow> child" where
  "js_and a b = (if truthy a then b else Bare a)"

definition optional_item :: "jsval \<Rightarrow> string \<Rightarrow> string \<Rightarrow> child" where
  "optional_item snapshot name label =
     js_and (read_prop snapshot name) (StatusItem label (read_prop snapshot name))"

definition status_grid :: "jsval \<Rightarrow> child list option" where
  "status_grid snapshot =
     (if nullish snapshot then None
      else Some
        [StatusItem label_state
           (Str (if truthy (read_prop snapshot ''running'') then text_running else text_stopped)),
         optional_item snapshot ''symbol'' label_symbol,
         optional_item snapshot ''best_bid'' label_best_bid,
         optional_item snapshot ''best_ask'' label_best_ask,
         optional_item snapshot ''spread'' label_spread,
         optional_item snapshot ''initial_price'' label_initial_price])"

text \<open>The items on screen: the labels of the status items among the children.\<close>

definition shown_labels :: "child list \<Rightarrow> string list" where
  "shown_labels cs = concat (map (\<lambda>c. case c of StatusItem l v \<Rightarrow> [l] | Bare v \<Rightarrow> []) cs)"


section \<open>Vocabulary of the properties\<close>

text \<open>A run of \<open>addLog\<close> calls, each with its timestamp, message and type, and the entry
  each call builds.\<close>

fun addLogs :: "(string \<times> string \<times> string) list \<Rightarrow> effect list" where
  "addLogs [] = []"
| "addLogs ((now, msg, ty) # calls) = addLog now msg ty @ addLogs calls"

definition entry_of :: "string \<times> string \<times> string \<Rightarrow> log_entry" where
  "entry_of c = \<lparr>timestamp = fst c, message = fst (snd c), type = snd (snd c)\<rparr>"

text \<open>The fields edited through an input of type \<^verbatim>\<open>number\<close>, and what it means for a
  configuration to hold a number in each of them (\<^verbatim>\<open>typeof v === 'number'\<close>).\<close>

definition numeric_fields :: "string list" where
  "numeric_fields = [''buy_quantity'', ''sell_quantity'', ''max_price_deviation'']"

fun is_number :: "jsval \<Rightarrow> bool" where
  "is_number (Number n) = True"
| "is_number v = False"

definition numeric_ok :: "(string \<times> jsval) list \<Rightarrow> bool" where
  "numeric_ok cfg =
     (is_number (obj_get cfg ''buy_quantity'') \<and> is_number (obj_get cfg ''sell_quantity'') \<and>
      is_number (obj_get cfg ''max_price_deviation''))"

text \<open>Whether an effect writes \<open>isLoading\<close>.\<close>

fun sets_loading :: "effect \<Rightarrow> bool" where
  "sets_loading (SetIsLoading b) = True"
| "sets_loading e = False"

text \<open>
  \<open>in_flight_through s es\<close>: started in \<open>s\<close>, the effects \<open>es\<close> leave \<open>isLoading\<close> true
  in every state from the one after the first effect to the one before the last.
\<close>

definition in_flight_through :: "world \<Rightarrow> effect list \<Rightarrow> bool" where
  "in_flight_through s es = list_all (\<lambda>k. isLoading (run s (take k es))) [1..<length es]"


section \<open>Sample inputs\<close>

text \<open>
  A runtime for evaluating the handlers on concrete inputs: no environment variable, and
  stand-ins for the three built-ins that agree with the engine on the few arguments
  used below.
\<close>

definition sample_runtime :: runtime where
  "sample_runtime =
     \<lparr>REACT_APP_BACKEND_URL = None,
      parseFloat = (\<lambda>s. if s = ''0.9'' then Fin (9 / 10) else if s = ''2'' then Fin 2 else NaN),
      number_toString = (\<lambda>n. if n = Fin 0 then ''0'' else ''NaN''),
      typeError_message = (\<lambda>v k. ''Cannot read properties of null'')\<rparr>"

text \<open>The configuration after the operator has typed the keys \<^verbatim>\<open>k1\<close> and \<^verbatim>\<open>s1\<close> and the
  pair \<^verbatim>\<open>ETHUSDT\<close>, and the state while the start request of that configuration is
  outstanding.\<close>

definition sample_config :: "(string \<times> jsval) list" where
  "sample_config =
     [(''api_key'', Str ''k1''), (''secret_key'', Str ''s1''), (''symbol'', Str ''ETHUSDT''),
      (''buy_quantity'', Number (Fin (1 / 1000))),
      (''sell_quantity'', Number (Fin (1 / 1000))),
      (''max_price_deviation'', Number (Fin (5 / 100)))]"

definition in_flight :: world where
  "in_flight =
     initial\<lparr>config := sample_config, isLoading := True,
       sent := [start_request sample_runtime sample_config]\<rparr>"

text \<open>The state at mount with the keys typed, once a poll has reported the bot as
  running: the state in which the stop button is enabled.\<close>

definition bot_running :: world where
  "bot_running = initial\<lparr>config := sample_config, botStatus := Obj [(''running'', Bool True)]\<rparr>"

definition numbered :: "nat \<Rightarrow> string \<times> string \<times> string" where
  "numbered i = (replicate i CHR ''t'', replicate i CHR ''m'', ''info'')"


section \<open>Running effects\<close>

lemma run_append: "run s (es @ fs) = run (run s es) fs"
  by (simp add: run_def)

lemma run_Nil: "run s [] = s"
  by (simp add: run_def)

lemma run_Cons: "run s (e # es) = run (apply_effect s e) es"
  by (simp add: run_def)

lemmas run_simps = run_Nil run_Cons run_append

lemma network_calls_Nil: "network_calls [] = []"
  by (simp add: network_calls_def)

lemma network_calls_Cons:
  "network_calls (e # es) = (case e of Fetch r \<Rightarrow> [r] | _ \<Rightarrow> []) @ network_calls es"
  by (simp add: network_calls_def)

lemma network_calls_append: "network_calls (es @ fs) = network_calls es @ network_calls fs"
  by (simp add: network_calls_def)

lemma log_appends_Nil: "log_appends [] = []"
  by (simp add: log_appends_def)

lemma log_appends_Cons:
  "log_appends (e # es) = (case e of SetLogs l \<Rightarrow> [l] | _ \<Rightarrow> []) @ log_appends es"
  by (simp add: log_appends_def)

lemma log_appends_append: "log_appends (es @ fs) = log_appends es @ log_appends fs"
  by (simp add: log_appends_def)

lemma isLoading_apply: "\<not> sets_loading e \<Longrightarrow> isLoading (apply_effect s e) = isLoading s"
  by (cases e) simp_all

lemma isLoading_run:
  "list_all (\<lambda>e. \<not> sets_loading e) es \<Longrightarrow> isLoading (run s es) = isLoading s"
  by (induction es arbitrary: s) (simp_all add: run_simps isLoading_apply)

lemma botStatus_run_release: "botStatus (run s (es @ [SetIsLoading b])) = botStatus (run s es)"
  by (simp add: run_simps)


section \<open>The status poll\<close>

lemma fetchBotStatus_quiet: "list_all (\<lambda>e. \<not> sets_loading e) (fetchBotStatus rt poll)"
  by (simp add: fetchBotStatus_def split: fetch_outcome.split sum.split)

lemma network_calls_fetchBotStatus:
  "network_calls (fetchBotStatus rt poll) = [status_request rt]"
  by (simp add: fetchBotStatus_def network_calls_def split: fetch_outcome.split sum.split)

lemma log_appends_fetchBotStatus: "log_appends (fetchBotStatus rt poll) = []"
  by (simp add: fetchBotStatus_def log_appends_def split: fetch_outcome.split sum.split)

lemma botStatus_run_fetchBotStatus:
  "json q = Inr v \<Longrightarrow> botStatus (run s (es @ fetchBotStatus rt (Responded q))) = v"
  by (simp add: fetchBotStatus_def run_simps)

text \<open>
  A poll that fails in the way the source catches (no response, or a body that is not
  JSON) writes one console line and touches neither the snapshot nor the log; a poll
  whose body parses replaces the snapshot with the parsed value.
\<close>

lemma fetchBotStatus_failure_silent:
  assumes "poll = Rejected m \<or> (\<exists>r. poll = Responded r \<and> json r = Inl m)"
  shows "fetchBotStatus rt poll =
           [Fetch (status_request rt), ConsoleError ''Error fetching bot status:'' m] \<and>
         botStatus (run s (fetchBotStatus rt poll)) = botStatus s \<and>
         logs (run s (fetchBotStatus rt poll)) = logs s \<and>
         console (run s (fetchBotStatus rt poll)) =
           console s @ [(''Error fetching bot status:'', m)]"
  using assms by (auto simp: fetchBotStatus_def run_simps)

lemma fetchBotStatus_parsed:
  assumes "poll = Responded r" and "json r = Inr v"
  shows "fetchBotStatus rt poll = [Fetch (status_request rt), SetBotStatus v] \<and>
         botStatus (run s (fetchBotStatus rt poll)) = v \<and>
         logs (run s (fetchBotStatus rt poll)) = logs s \<and>
         console (run s (fetchBotStatus rt poll)) = console s"
  using assms by (simp add: fetchBotStatus_def run_simps)

text \<open>
  Claim C1 says that every failed poll, a response outside 200 to 299 included, leaves
  the snapshot unchanged and that only a successful poll replaces it. \<open>fetchBotStatus\<close>
  never reads \<^verbatim>\<open>response.ok\<close>, unlike \<open>startBot\<close> and \<open>stopBot\<close>: a response with status
  500 and the JSON body \<^verbatim>\<open>{"detail": "Internal Server Error"}\<close> is parsed and stored as
  the snapshot, replacing the one that was held.
\<close>

theorem fetchBotStatus_non2xx_replaces_snapshot:
  "\<not> ok \<lparr>status = 500, json = Inr (Obj [(''detail'', Str ''Internal Server Error'')])\<rparr> \<and>
   fetchBotStatus sample_runtime
     (Responded \<lparr>status = 500, json = Inr (Obj [(''detail'', Str ''Internal Server Error'')])\<rparr>) =
     [Fetch (status_request sample_runtime),
      SetBotStatus (Obj [(''detail'', Str ''Internal Server Error'')])] \<and>
   botStatus (run initial (fetchBotStatus sample_runtime
     (Responded \<lparr>status = 500, json = Inr (Obj [(''detail'', Str ''Internal Server Error'')])\<rparr>))) =
     Obj [(''detail'', Str ''Internal Server Error'')] \<and>
   botStatus initial = Obj [(''running'', Bool False), (''message'', Str '''')]"
  by (simp add: ok_def fetchBotStatus_def run_simps initial_def)


section \<open>The event log\<close>

lemma slice_last_99: "slice (- 99) xs = drop (length xs - 99) xs"
  by (simp add: slice_def Let_def max_def nat_diff_distrib')

lemma addLogs_append: "addLogs (cs @ ds) = addLogs cs @ addLogs ds"
  by (induction cs) auto

lemma logs_addLogs_snoc:
  "logs (run s (addLogs (cs @ [c]))) = slice (- 99) (logs (run s (addLogs cs))) @ [entry_of c]"
  by (cases c) (simp add: addLogs_append run_append addLog_def run_Cons run_Nil entry_of_def)

lemma logs_addLogs:
  assumes "logs s = []"
  shows "logs (run s (addLogs cs)) = drop (length cs - 100) (map entry_of cs)"
proof (induction cs rule: rev_induct)
  case Nil
  show ?case using assms by (simp add: run_Nil)
next
  case (snoc c cs)
  show ?case
  proof (cases "length cs < 100")
    case True
    then show ?thesis
      unfolding logs_addLogs_snoc snoc.IH slice_last_99 by simp
  next
    case False
    then have "Suc (length cs - 100) = length cs - 99" by arith
    with False show ?thesis
      unfolding logs_addLogs_snoc snoc.IH slice_last_99 by simp
  qed
qed

text \<open>
  Claim C2. Starting from an empty log, any run of \<open>addLog\<close> calls leaves the entries
  of the last 100 calls, in the order of the calls: the log drops entries from the front
  only. After 150 calls it holds exactly 100 entries, those of the calls 51 to 150.
\<close>

theorem addLog_ring_bound:
  assumes "logs s = []"
  shows "logs (run s (addLogs cs)) = drop (length cs - 100) (map entry_of cs) \<and>
         (length cs = 150 \<longrightarrow>
            length (logs (run s (addLogs cs))) = 100 \<and>
            logs (run s (addLogs cs)) = drop 50 (map entry_of cs))"
  using logs_addLogs [OF assms, of cs] by simp

text \<open>The same at the mount state, with 150 entries that differ pairwise.\<close>

theorem addLog_ring_bound_witness:
  "logs initial = [] \<and> length (map numbered [0..<150]) = 150 \<and>
   length (logs (run initial (addLogs (map numbered [0..<150])))) = 100 \<and>
   logs (run initial (addLogs (map numbered [0..<150]))) =
     map (entry_of \<circ> numbered) [50..<150]"
proof -
  have h: "logs initial = []" by (simp add: initial_def)
  have d: "drop 50 [0..<150] = [50..<150]" by simp
  show ?thesis
    using addLog_ring_bound [OF h, of "map numbered [0..<150]"] h
    by (simp add: drop_map d)
qed


section \<open>Start and stop\<close>

lemma try_catch_fst: "\<exists>es. try_catch block handler = fst block @ es"
  by (simp add: try_catch_def split: option.split)

lemma startBot_try_calls:
  "\<exists>es. fst (startBot_try rt cfg now post poll) = Fetch (start_request rt cfg) # es"
  by (simp add: startBot_try_def Let_def split: fetch_outcome.split sum.split)

lemma stopBot_try_calls:
  "\<exists>es. fst (stopBot_try rt now post poll) = Fetch (stop_request rt) # es"
  by (simp add: stopBot_try_def Let_def split: fetch_outcome.split sum.split)

lemma startBot_success:
  assumes "truthy (obj_get cfg ''api_key'')" and "truthy (obj_get cfg ''secret_key'')"
    and "post = Responded r" and "ok r" and "json r = Inr result"
  shows "startBot rt cfg now post poll =
           [SetIsLoading True, Fetch (start_request rt cfg),
            SetLogs \<lparr>timestamp = now,
                     message = msg_started @ to_string rt (obj_get cfg ''symbol''),
                     type = ''success''\<rparr>] @
           fetchBotStatus rt poll @ [SetIsLoading False]"
  using assms by (simp add: startBot_def startBot_try_def try_catch_def addLog_def)

lemma startBot_rejected:
  assumes "truthy (obj_get cfg ''api_key'')" and "truthy (obj_get cfg ''secret_key'')"
    and "post = Responded r" and "\<not> ok r" and "json r = Inr result"
    and "get_prop rt result ''detail'' = Inr detail"
  shows "startBot rt cfg now post poll =
           [SetIsLoading True, Fetch (start_request rt cfg),
            SetLogs \<lparr>timestamp = now, message = msg_start_failed @ to_string rt detail,
                     type = ''error''\<rparr>,
            SetIsLoading False]"
  using assms by (simp add: startBot_def startBot_try_def try_catch_def addLog_def)

lemma stopBot_success:
  assumes "post = Responded r" and "ok r" and "json r = Inr result"
  shows "stopBot rt now post poll =
           [SetIsLoading True, Fetch (stop_request rt),
            SetLogs \<lparr>timestamp = now, message = msg_stopped, type = ''success''\<rparr>] @
           fetchBotStatus rt poll @ [SetIsLoading False]"
  using assms by (simp add: stopBot_def stopBot_try_def try_catch_def addLog_def)

text \<open>
  Claim C3. When \<^verbatim>\<open>api_key\<close> or \<^verbatim>\<open>secret_key\<close> of the configuration is the empty string,
  \<open>startBot\<close> issues no request, appends exactly one entry, of type \<^verbatim>\<open>error\<close>, to the
  log, and does not write \<open>isLoading\<close>: the flag stays false when it was false.
\<close>

theorem startBot_validation_gate:
  assumes "obj_get (config s) ''api_key'' = Str '''' \<or> obj_get (config s) ''secret_key'' = Str ''''"
  shows "network_calls (startBot rt (config s) now post poll) = [] \<and>
         log_appends (startBot rt (config s) now post poll) =
           [\<lparr>timestamp = now, message = msg_enter_keys, type = ''error''\<rparr>] \<and>
         sent (run s (startBot rt (config s) now post poll)) = sent s \<and>
         logs (run s (startBot rt (config s) now post poll)) =
           slice (- 99) (logs s) @ [\<lparr>timestamp = now, message = msg_enter_keys, type = ''error''\<rparr>] \<and>
         isLoading (run s (startBot rt (config s) now post poll)) = isLoading s"
proof -
  from assms have "startBot rt (config s) now post poll = addLog now msg_enter_keys ''error''"
    by (auto simp: startBot_def)
  then show ?thesis
    by (simp add: addLog_def network_calls_def log_appends_def run_simps)
qed

text \<open>At mount both keys are empty: a start there sends nothing and logs one error.\<close>

theorem startBot_validation_gate_witness:
  "obj_get (config initial) ''api_key'' = Str '''' \<and>
   network_calls (startBot sample_runtime (config initial) ''12:00:00''
     (Responded \<lparr>status = 200, json = Inr Null\<rparr>) (Rejected ''Failed to fetch'')) = [] \<and>
   logs (run initial (startBot sample_runtime (config initial) ''12:00:00''
     (Responded \<lparr>status = 200, json = Inr Null\<rparr>) (Rejected ''Failed to fetch''))) =
     [\<lparr>timestamp = ''12:00:00'', message = msg_enter_keys, type = ''error''\<rparr>] \<and>
   \<not> isLoading (run initial (startBot sample_runtime (config initial) ''12:00:00''
     (Responded \<lparr>status = 200, json = Inr Null\<rparr>) (Rejected ''Failed to fetch'')))"
proof -
  have h: "obj_get (config initial) ''api_key'' = Str ''''"
    by (simp add: initial_def obj_get_def)
  have l: "logs initial = []" "\<not> isLoading initial"
    by (simp_all add: initial_def)
  show ?thesis
    using startBot_validation_gate [of initial sample_runtime "''12:00:00''"
        "Responded \<lparr>status = 200, json = Inr Null\<rparr>" "Rejected ''Failed to fetch''"] h l
    by (simp add: slice_def)
qed

text \<open>
  Claim C4 says that \<open>startBot\<close>, invoked while \<open>isLoading\<close> is true, issues no second
  request because the controller itself refuses the call. \<open>startBot\<close> never reads
  \<open>isLoading\<close>: invoked in the state where the first start request is outstanding, it
  sends the same request again.
\<close>

theorem startBot_ignores_in_flight:
  "isLoading in_flight \<and>
   network_calls (startBot sample_runtime (config in_flight) ''12:00:00''
     (Rejected ''Failed to fetch'') (Rejected ''Failed to fetch'')) =
     [start_request sample_runtime sample_config] \<and>
   sent (run in_flight (startBot sample_runtime (config in_flight) ''12:00:00''
     (Rejected ''Failed to fetch'') (Rejected ''Failed to fetch''))) =
     [start_request sample_runtime sample_config, start_request sample_runtime sample_config]"
  by (simp add: in_flight_def startBot_def sample_config_def obj_get_def startBot_try_def
      try_catch_def addLog_def network_calls_def run_simps)

text \<open>
  Claim C4 as amended: the guard is the button. While \<open>isLoading\<close> is true the start
  button is disabled, so a click on it runs no handler, issues no request and leaves the
  state as it is.
\<close>

theorem click_start_in_flight:
  "isLoading s \<Longrightarrow>
   click_start rt s now post poll = [] \<and>
   network_calls (click_start rt s now post poll) = [] \<and>
   run s (click_start rt s now post poll) = s"
  by (simp add: click_start_def start_disabled_def network_calls_def run_Nil)

text \<open>A click on the start button while the first start request is outstanding.\<close>

theorem click_start_in_flight_witness:
  "isLoading in_flight \<and>
   network_calls (click_start sample_runtime in_flight ''12:00:00''
     (Rejected ''Failed to fetch'') (Rejected ''Failed to fetch'')) = []"
proof -
  have h: "isLoading in_flight" by (simp add: in_flight_def)
  show ?thesis
    using click_start_in_flight [OF h, of sample_runtime "''12:00:00''"
        "Rejected ''Failed to fetch''" "Rejected ''Failed to fetch''"] h
    by (simp add: network_calls_def)
qed

text \<open>
  Claim C5. Once \<open>startBot\<close> has passed the key check, and always for \<open>stopBot\<close>, the
  request is issued, the last effect is \<^verbatim>\<open>setIsLoading(false)\<close> and \<open>isLoading\<close> is false
  in the final state, whatever the outcome of the request and of the poll: a success
  response, a rejection by the remote side, a body that does not parse, no response.
\<close>

theorem in_flight_released:
  "(truthy (obj_get cfg ''api_key'') \<and> truthy (obj_get cfg ''secret_key'') \<longrightarrow>
      network_calls (startBot rt cfg now post poll) \<noteq> [] \<and>
      last (startBot rt cfg now post poll) = SetIsLoading False \<and>
      \<not> isLoading (run s (startBot rt cfg now post poll))) \<and>
   network_calls (stopBot rt now post poll) \<noteq> [] \<and>
   last (stopBot rt now post poll) = SetIsLoading False \<and>
   \<not> isLoading (run s (stopBot rt now post poll))"
proof -
  obtain es fs where a: "try_catch (startBot_try rt cfg now post poll)
      (\<lambda>m. addLog now (msg_connection @ m) ''error'') = Fetch (start_request rt cfg) # es @ fs"
    using startBot_try_calls [of rt cfg now post poll]
      try_catch_fst [of "startBot_try rt cfg now post poll"] by fastforce
  obtain es' fs' where b: "try_catch (stopBot_try rt now post poll)
      (\<lambda>m. addLog now (msg_connection @ m) ''error'') = Fetch (stop_request rt) # es' @ fs'"
    using stopBot_try_calls [of rt now post poll]
      try_catch_fst [of "stopBot_try rt now post poll"] by fastforce
  show ?thesis
    by (simp add: startBot_def stopBot_def run_simps network_calls_Cons a b)
qed

text \<open>A start whose request gets no response, and a stop answered with 400 and the
  body \<^verbatim>\<open>null\<close>, both begun with the flag set.\<close>

theorem in_flight_released_witness:
  "truthy (obj_get sample_config ''api_key'') \<and> truthy (obj_get sample_config ''secret_key'') \<and>
   network_calls (startBot sample_runtime sample_config ''12:00:00''
     (Rejected ''Failed to fetch'') (Rejected ''Failed to fetch'')) \<noteq> [] \<and>
   \<not> isLoading (run in_flight (startBot sample_runtime sample_config ''12:00:00''
     (Rejected ''Failed to fetch'') (Rejected ''Failed to fetch''))) \<and>
   \<not> isLoading (run in_flight (stopBot sample_runtime ''12:00:00''
     (Responded \<lparr>status = 400, json = Inr Null\<rparr>) (Rejected ''Failed to fetch'')))"
  using in_flight_released [of sample_config sample_runtime "''12:00:00''"
      "Rejected ''Failed to fetch''" "Rejected ''Failed to fetch''" in_flight]
    in_flight_released [of sample_config sample_runtime "''12:00:00''"
      "Responded \<lparr>status = 400, json = Inr Null\<rparr>" "Rejected ''Failed to fetch''" in_flight]
  by (simp add: sample_config_def obj_get_def)

text \<open>
  Claim C6 gives the text of the success entry as \<^verbatim>\<open>bot started for pair <symbol>\<close>. With
  the keys \<^verbatim>\<open>k1\<close> and \<^verbatim>\<open>s1\<close>, the pair \<^verbatim>\<open>ETHUSDT\<close> and a response 200 the one entry that
  is logged carries the Russian literal of line 72 followed by \<^verbatim>\<open>ETHUSDT\<close>, which is not
  the text \<^verbatim>\<open>bot started for pair ETHUSDT\<close>.
\<close>

theorem startBot_english_message_refuted:
  "map message (log_appends (startBot sample_runtime sample_config ''12:00:00''
     (Responded \<lparr>status = 200, json = Inr (Obj [(''status'', Str ''started'')])\<rparr>)
     (Rejected ''Failed to fetch''))) = [msg_started @ ''ETHUSDT''] \<and>
   msg_started @ ''ETHUSDT'' \<noteq> ''bot started for pair ETHUSDT''"
  by (simp add: startBot_def startBot_try_def try_catch_def addLog_def sample_config_def
      obj_get_def ok_def log_appends_Cons log_appends_append log_appends_fetchBotStatus
      log_appends_Nil msg_started_def)

text \<open>
  Claim C6 as amended. With both keys set and a response whose body parses: when the
  status is 200 to 299 the log gains one entry, of type \<^verbatim>\<open>success\<close>, whose message is the
  literal of line 72 followed by the configured symbol, and the status request is issued
  right after the start request; when the status is outside 200 to 299 and the body has
  the string \<open>d\<close> as its \<^verbatim>\<open>detail\<close>, the log gains one entry, of type \<^verbatim>\<open>error\<close>, whose
  message is the literal of line 75 followed by \<open>d\<close>, and no status request is issued.
\<close>

theorem startBot_outcome_logged:
  assumes "truthy (obj_get cfg ''api_key'')" and "truthy (obj_get cfg ''secret_key'')"
    and "post = Responded r" and "json r = Inr result"
  shows "(ok r \<longrightarrow>
            log_appends (startBot rt cfg now post poll) =
              [\<lparr>timestamp = now,
                message = msg_started @ to_string rt (obj_get cfg ''symbol''),
                type = ''success''\<rparr>] \<and>
            network_calls (startBot rt cfg now post poll) =
              [start_request rt cfg, status_request rt]) \<and>
         (\<not> ok r \<and> read_prop result ''detail'' = Str d \<longrightarrow>
            log_appends (startBot rt cfg now post poll) =
              [\<lparr>timestamp = now, message = msg_start_failed @ d, type = ''error''\<rparr>] \<and>
            network_calls (startBot rt cfg now post poll) = [start_request rt cfg])"
proof (intro conjI impI)
  assume "ok r"
  note e = startBot_success [OF assms(1,2,3) this assms(4), of rt now poll]
  show "log_appends (startBot rt cfg now post poll) =
      [\<lparr>timestamp = now, message = msg_started @ to_string rt (obj_get cfg ''symbol''),
        type = ''success''\<rparr>]"
    unfolding e
    by (simp add: log_appends_Cons log_appends_append log_appends_fetchBotStatus
        log_appends_Nil)
  show "network_calls (startBot rt cfg now post poll) = [start_request rt cfg, status_request rt]"
    unfolding e
    by (simp add: network_calls_Cons network_calls_append network_calls_fetchBotStatus
        network_calls_Nil)
next
  assume a: "\<not> ok r \<and> read_prop result ''detail'' = Str d"
  then have "\<not> nullish result"
    by (auto simp: nullish_def)
  with a have g: "get_prop rt result ''detail'' = Inr (Str d)"
    by (simp add: get_prop_def)
  from a have n: "\<not> ok r" by simp
  note e = startBot_rejected [OF assms(1,2,3) n assms(4) g, of now poll]
  show "log_appends (startBot rt cfg now post poll) =
      [\<lparr>timestamp = now, message = msg_start_failed @ d, type = ''error''\<rparr>]"
    unfolding e by (simp add: log_appends_Cons log_appends_Nil)
  show "network_calls (startBot rt cfg now post poll) = [start_request rt cfg]"
    unfolding e by (simp add: network_calls_Cons network_calls_Nil)
qed

text \<open>A start answered with 200, and one answered with 400 and the detail
  \<^verbatim>\<open>invalid symbol\<close>.\<close>

theorem startBot_outcome_logged_witness:
  "truthy (obj_get sample_config ''api_key'') \<and> truthy (obj_get sample_config ''secret_key'') \<and>
   ok \<lparr>status = 200, json = Inr (Obj [(''status'', Str ''started'')])\<rparr> \<and>
   log_appends (startBot sample_runtime sample_config ''12:00:00''
     (Responded \<lparr>status = 200, json = Inr (Obj [(''status'', Str ''started'')])\<rparr>)
     (Rejected ''Failed to fetch'')) =
     [\<lparr>timestamp = ''12:00:00'', message = msg_started @ ''ETHUSDT'', type = ''success''\<rparr>] \<and>
   \<not> ok \<lparr>status = 400, json = Inr (Obj [(''detail'', Str ''invalid symbol'')])\<rparr> \<and>
   log_appends (startBot sample_runtime sample_config ''12:00:00''
     (Responded \<lparr>status = 400, json = Inr (Obj [(''detail'', Str ''invalid symbol'')])\<rparr>)
     (Rejected ''Failed to fetch'')) =
     [\<lparr>timestamp = ''12:00:00'', message = msg_start_failed @ ''invalid symbol'',
       type = ''error''\<rparr>]"
proof -
  have k: "truthy (obj_get sample_config ''api_key'')" "truthy (obj_get sample_config ''secret_key'')"
    by (simp_all add: sample_config_def obj_get_def)
  have s: "obj_get sample_config ''symbol'' = Str ''ETHUSDT''"
    by (simp add: sample_config_def obj_get_def)
  have d: "read_prop (Obj [(''detail'', Str ''invalid symbol'')]) ''detail'' = Str ''invalid symbol''"
    by (simp add: obj_get_def)
  show ?thesis
    using startBot_outcome_logged [OF k refl, of
        "\<lparr>status = 200, json = Inr (Obj [(''status'', Str ''started'')])\<rparr>"
        "Obj [(''status'', Str ''started'')]" sample_runtime "''12:00:00''"
        "Rejected ''Failed to fetch''" "''''"]
      startBot_outcome_logged [OF k refl, of
        "\<lparr>status = 400, json = Inr (Obj [(''detail'', Str ''invalid symbol'')])\<rparr>"
        "Obj [(''detail'', Str ''invalid symbol'')]" sample_runtime "''12:00:00''"
        "Rejected ''Failed to fetch''" "''invalid symbol''"]
      k s d
    by (simp add: ok_def)
qed

text \<open>
  Claim C9 says that every response 200 to 299 counts as a success, whatever its body.
  \<open>startBot\<close> parses the body before it tests \<^verbatim>\<open>response.ok\<close>: a response 200 whose body
  is not JSON ends in the \<^verbatim>\<open>catch\<close> branch, which logs a connection error; no success
  entry is written and no status request is issued.
\<close>

theorem startBot_unparseable_2xx:
  "ok \<lparr>status = 200, json = Inl ''Unexpected end of JSON input''\<rparr> \<and>
   startBot sample_runtime sample_config ''12:00:00''
     (Responded \<lparr>status = 200, json = Inl ''Unexpected end of JSON input''\<rparr>)
     (Responded \<lparr>status = 200, json = Inr (Obj [(''running'', Bool True)])\<rparr>) =
     [SetIsLoading True, Fetch (start_request sample_runtime sample_config),
      SetLogs \<lparr>timestamp = ''12:00:00'',
               message = msg_connection @ ''Unexpected end of JSON input'',
               type = ''error''\<rparr>,
      SetIsLoading False]"
  by (simp add: ok_def startBot_def startBot_try_def try_catch_def addLog_def sample_config_def
      obj_get_def)

text \<open>
  Claim C9 as amended. With both keys set, every response 200 to 299 whose body parses
  as JSON is a success, whatever the parsed value is: the only entry logged has type
  \<^verbatim>\<open>success\<close>, and the status request follows the start request.
\<close>

theorem startBot_parsed_2xx_success:
  assumes "truthy (obj_get cfg ''api_key'')" and "truthy (obj_get cfg ''secret_key'')"
    and "post = Responded r" and "ok r" and "json r = Inr result"
  shows "map type (log_appends (startBot rt cfg now post poll)) = [''success''] \<and>
         network_calls (startBot rt cfg now post poll) = [start_request rt cfg, status_request rt]"
  unfolding startBot_success [OF assms, of rt now poll]
  by (simp add: log_appends_Cons log_appends_append log_appends_fetchBotStatus log_appends_Nil
      network_calls_Cons network_calls_append network_calls_fetchBotStatus network_calls_Nil)

text \<open>A response 201 whose body parses to the empty array.\<close>

theorem startBot_parsed_2xx_success_witness:
  "ok \<lparr>status = 201, json = Inr (Arr [])\<rparr> \<and>
   map type (log_appends (startBot sample_runtime sample_config ''12:00:00''
     (Responded \<lparr>status = 201, json = Inr (Arr [])\<rparr>) (Rejected ''Failed to fetch''))) =
     [''success''] \<and>
   network_calls (startBot sample_runtime sample_config ''12:00:00''
     (Responded \<lparr>status = 201, json = Inr (Arr [])\<rparr>) (Rejected ''Failed to fetch'')) =
     [start_request sample_runtime sample_config, status_request sample_runtime]"
proof -
  have k: "truthy (obj_get sample_config ''api_key'')" "truthy (obj_get sample_config ''secret_key'')"
    by (simp_all add: sample_config_def obj_get_def)
  have o: "ok \<lparr>status = 201, json = Inr (Arr [])\<rparr>"
    by (simp add: ok_def)
  show ?thesis
    using startBot_parsed_2xx_success [OF k refl o, of "Arr []" sample_runtime "''12:00:00''"
        "Rejected ''Failed to fetch''"] o
    by simp
qed

lemma in_flight_through_bracket:
  assumes "list_all (\<lambda>e. \<not> sets_loading e) mid"
  shows "in_flight_through s (SetIsLoading True # mid @ [SetIsLoading False])"
proof -
  have "isLoading (run s (take k (SetIsLoading True # mid @ [SetIsLoading False])))"
    if "1 \<le> k" and "k < length mid + 2" for k
  proof -
    from that obtain j where k: "k = Suc j" and j: "j \<le> length mid"
      by (cases k) auto
    have q: "list_all (\<lambda>e. \<not> sets_loading e) (take j mid)"
      using assms by (auto simp: list_all_iff dest: in_set_takeD)
    show ?thesis
      using j by (simp add: k run_Cons isLoading_run [OF q])
  qed
  note step = this
  show ?thesis
    unfolding in_flight_through_def list_all_iff
  proof
    fix k
    assume "k \<in> set [1..<length (SetIsLoading True # mid @ [SetIsLoading False])]"
    then have "1 \<le> k" and "k < length mid + 2"
      by (simp_all del: upt_Suc)
    then show "isLoading (run s (take k (SetIsLoading True # mid @ [SetIsLoading False])))"
      by (rule step)
  qed
qed

lemma butlast_bracket: "butlast (a # b # c # es @ [z]) = a # b # c # es"
  by (simp add: butlast_append)

text \<open>
  Claim C10 says that after a successful start or stop response the flag is released
  only once the status refresh that follows has resolved. A response 200 whose body is
  not JSON never reaches the refresh: \<^verbatim>\<open>response.json()\<close> rejects, the \<^verbatim>\<open>catch\<close> branch
  logs a connection error and \<^verbatim>\<open>finally\<close> releases the flag at once. No status request
  is issued, and the snapshot the re-enabled buttons show is the one held before the
  command, whatever the poll would have reported.
\<close>

theorem unparseable_2xx_skips_refresh:
  "ok \<lparr>status = 200, json = Inl ''Unexpected end of JSON input''\<rparr> \<and>
   stopBot sample_runtime ''12:00:00''
     (Responded \<lparr>status = 200, json = Inl ''Unexpected end of JSON input''\<rparr>)
     (Responded \<lparr>status = 200, json = Inr (Obj [(''running'', Bool False)])\<rparr>) =
     [SetIsLoading True, Fetch (stop_request sample_runtime),
      SetLogs \<lparr>timestamp = ''12:00:00'',
               message = msg_connection @ ''Unexpected end of JSON input'',
               type = ''error''\<rparr>,
      SetIsLoading False] \<and>
   network_calls (stopBot sample_runtime ''12:00:00''
     (Responded \<lparr>status = 200, json = Inl ''Unexpected end of JSON input''\<rparr>)
     (Responded \<lparr>status = 200, json = Inr (Obj [(''running'', Bool False)])\<rparr>)) =
     [stop_request sample_runtime] \<and>
   \<not> isLoading (run bot_running (stopBot sample_runtime ''12:00:00''
     (Responded \<lparr>status = 200, json = Inl ''Unexpected end of JSON input''\<rparr>)
     (Responded \<lparr>status = 200, json = Inr (Obj [(''running'', Bool False)])\<rparr>))) \<and>
   botStatus (run bot_running (stopBot sample_runtime ''12:00:00''
     (Responded \<lparr>status = 200, json = Inl ''Unexpected end of JSON input''\<rparr>)
     (Responded \<lparr>status = 200, json = Inr (Obj [(''running'', Bool False)])\<rparr>))) =
     Obj [(''running'', Bool True)] \<and>
   network_calls (startBot sample_runtime sample_config ''12:00:00''
     (Responded \<lparr>status = 200, json = Inl ''Unexpected end of JSON input''\<rparr>)
     (Responded \<lparr>status = 200, json = Inr (Obj [(''running'', Bool True)])\<rparr>)) =
     [start_request sample_runtime sample_config] \<and>
   botStatus (run initial (startBot sample_runtime sample_config ''12:00:00''
     (Responded \<lparr>status = 200, json = Inl ''Unexpected end of JSON input''\<rparr>)
     (Responded \<lparr>status = 200, json = Inr (Obj [(''running'', Bool True)])\<rparr>))) =
     botStatus initial"
  by (simp add: ok_def stopBot_def stopBot_try_def startBot_def startBot_try_def try_catch_def
      addLog_def network_calls_def run_simps bot_running_def sample_config_def obj_get_def)

text \<open>
  Claim C10 as amended. After a response to start or stop with a status 200 to 299 and
  a body that parses as JSON, the effects end with those of the status poll followed by
  \<^verbatim>\<open>setIsLoading(false)\<close>. \<open>isLoading\<close> is true in every state between the first and the
  last effect, so also in the state before the last, where the snapshot is already the
  final one (the parsed response of the poll when that poll succeeded); only the last
  effect sets \<open>isLoading\<close> to false.
\<close>

theorem release_after_refresh:
  assumes "post = Responded r" and "ok r" and "json r = Inr result"
  shows "(truthy (obj_get cfg ''api_key'') \<and> truthy (obj_get cfg ''secret_key'') \<longrightarrow>
            (\<exists>pre. startBot rt cfg now post poll =
                     pre @ fetchBotStatus rt poll @ [SetIsLoading False]) \<and>
            in_flight_through s (startBot rt cfg now post poll) \<and>
            isLoading (run s (butlast (startBot rt cfg now post poll))) \<and>
            botStatus (run s (butlast (startBot rt cfg now post poll))) =
              botStatus (run s (startBot rt cfg now post poll)) \<and>
            (\<forall>q v. poll = Responded q \<and> json q = Inr v \<longrightarrow>
               botStatus (run s (butlast (startBot rt cfg now post poll))) = v) \<and>
            \<not> isLoading (run s (startBot rt cfg now post poll))) \<and>
         (\<exists>pre. stopBot rt now post poll = pre @ fetchBotStatus rt poll @ [SetIsLoading False]) \<and>
         in_flight_through s (stopBot rt now post poll) \<and>
         isLoading (run s (butlast (stopBot rt now post poll))) \<and>
         botStatus (run s (butlast (stopBot rt now post poll))) =
           botStatus (run s (stopBot rt now post poll)) \<and>
         (\<forall>q v. poll = Responded q \<and> json q = Inr v \<longrightarrow>
            botStatus (run s (butlast (stopBot rt now post poll))) = v) \<and>
         \<not> isLoading (run s (stopBot rt now post poll))"
proof -
  have shape: "in_flight_through s (SetIsLoading True # a # b # fetchBotStatus rt poll @ [SetIsLoading False]) \<and>
      isLoading (run s (SetIsLoading True # a # b # fetchBotStatus rt poll)) \<and>
      botStatus (run s (SetIsLoading True # a # b # fetchBotStatus rt poll)) =
        botStatus (run s (SetIsLoading True # a # b # fetchBotStatus rt poll @ [SetIsLoading False])) \<and>
      (\<forall>q v. poll = Responded q \<and> json q = Inr v \<longrightarrow>
         botStatus (run s (SetIsLoading True # a # b # fetchBotStatus rt poll)) = v) \<and>
      \<not> isLoading (run s (SetIsLoading True # a # b # fetchBotStatus rt poll @ [SetIsLoading False]))"
    if "\<not> sets_loading a" and "\<not> sets_loading b" for a b
  proof -
    have q: "list_all (\<lambda>e. \<not> sets_loading e) (a # b # fetchBotStatus rt poll)"
      using that fetchBotStatus_quiet [of rt poll] by simp
    have 1: "in_flight_through s (SetIsLoading True # a # b # fetchBotStatus rt poll @ [SetIsLoading False])"
      using in_flight_through_bracket [OF q, of s] by simp
    have 2: "isLoading (run s (SetIsLoading True # a # b # fetchBotStatus rt poll))"
      using isLoading_run [OF q, of "apply_effect s (SetIsLoading True)"] by (simp add: run_Cons)
    have 3: "botStatus (run s (SetIsLoading True # a # b # fetchBotStatus rt poll)) =
        botStatus (run s (SetIsLoading True # a # b # fetchBotStatus rt poll @ [SetIsLoading False]))"
      using botStatus_run_release [of s "SetIsLoading True # a # b # fetchBotStatus rt poll" False]
      by simp
    have 4: "botStatus (run s (SetIsLoading True # a # b # fetchBotStatus rt poll)) = v"
      if "poll = Responded q" and "json q = Inr v" for q v
      using botStatus_run_fetchBotStatus [OF that(2), of s "[SetIsLoading True, a, b]" rt] that(1)
      by simp
    have 5: "\<not> isLoading (run s (SetIsLoading True # a # b # fetchBotStatus rt poll @ [SetIsLoading False]))"
      using run_append [of s "SetIsLoading True # a # b # fetchBotStatus rt poll" "[SetIsLoading False]"]
      by (simp add: run_Cons run_Nil)
    from 1 2 3 4 5 show ?thesis by blast
  qed
  have stop: "stopBot rt now post poll =
      SetIsLoading True # Fetch (stop_request rt) #
      SetLogs \<lparr>timestamp = now, message = msg_stopped, type = ''success''\<rparr> #
      fetchBotStatus rt poll @ [SetIsLoading False]"
    using stopBot_success [OF assms, of rt now poll] by simp
  have start: "startBot rt cfg now post poll =
      SetIsLoading True # Fetch (start_request rt cfg) #
      SetLogs \<lparr>timestamp = now, message = msg_started @ to_string rt (obj_get cfg ''symbol''),
               type = ''success''\<rparr> #
      fetchBotStatus rt poll @ [SetIsLoading False]"
    if "truthy (obj_get cfg ''api_key'')" and "truthy (obj_get cfg ''secret_key'')"
    using startBot_success [OF that assms, of rt now poll] by simp
  have ex: "\<exists>pre. a # b # c # es @ [z] = pre @ es @ [z]" for a b c :: effect and es z
    by (rule exI [of _ "[a, b, c]"]) simp
  show ?thesis
  proof (intro conjI impI)
    assume k: "truthy (obj_get cfg ''api_key'') \<and> truthy (obj_get cfg ''secret_key'')"
    then have e: "startBot rt cfg now post poll =
      SetIsLoading True # Fetch (start_request rt cfg) #
      SetLogs \<lparr>timestamp = now, message = msg_started @ to_string rt (obj_get cfg ''symbol''),
               type = ''success''\<rparr> #
      fetchBotStatus rt poll @ [SetIsLoading False]"
      using start by simp
    note sh = shape [of "Fetch (start_request rt cfg)"
        "SetLogs \<lparr>timestamp = now, message = msg_started @ to_string rt (obj_get cfg ''symbol''),
               type = ''success''\<rparr>"]
    show "\<exists>pre. startBot rt cfg now post poll = pre @ fetchBotStatus rt poll @ [SetIsLoading False]"
      unfolding e by (rule ex)
    show "in_flight_through s (startBot rt cfg now post poll)"
      unfolding e using sh by simp
    show "isLoading (run s (butlast (startBot rt cfg now post poll)))"
      unfolding e butlast_bracket using sh by simp
    show "botStatus (run s (butlast (startBot rt cfg now post poll))) =
              botStatus (run s (startBot rt cfg now post poll))"
      unfolding e butlast_bracket using sh by simp
    show "\<forall>q v. poll = Responded q \<and> json q = Inr v \<longrightarrow>
               botStatus (run s (butlast (startBot rt cfg now post poll))) = v"
      unfolding e butlast_bracket using sh by simp
    show "\<not> isLoading (run s (startBot rt cfg now post poll))"
      unfolding e using sh by simp
  next
    note sh = shape [of "Fetch (stop_request rt)"
        "SetLogs \<lparr>timestamp = now, message = msg_stopped, type = ''success''\<rparr>"]
    show "\<exists>pre. stopBot rt now post poll = pre @ fetchBotStatus rt poll @ [SetIsLoading False]"
      unfolding stop by (rule ex)
    show "in_flight_through s (stopBot rt now post poll)"
      unfolding stop using sh by simp
    show "isLoading (run s (butlast (stopBot rt now post poll)))"
      unfolding stop butlast_bracket using sh by simp
    show "botStatus (run s (butlast (stopBot rt now post poll))) =
           botStatus (run s (stopBot rt now post poll))"
      unfolding stop butlast_bracket using sh by simp
    show "\<forall>q v. poll = Responded q \<and> json q = Inr v \<longrightarrow>
            botStatus (run s (butlast (stopBot rt now post poll))) = v"
      unfolding stop butlast_bracket using sh by simp
    show "\<not> isLoading (run s (stopBot rt now post poll))"
      unfolding stop using sh by simp
  qed
qed

text \<open>A start answered with 200 whose poll reports \<^verbatim>\<open>running\<close>: the snapshot is in
  place while \<open>isLoading\<close> is still true.\<close>

theorem release_after_refresh_witness:
  "ok \<lparr>status = 200, json = Inr (Obj [])\<rparr> \<and>
   truthy (obj_get sample_config ''api_key'') \<and> truthy (obj_get sample_config ''secret_key'') \<and>
   in_flight_through initial (startBot sample_runtime sample_config ''12:00:00''
     (Responded \<lparr>status = 200, json = Inr (Obj [])\<rparr>)
     (Responded \<lparr>status = 200, json = Inr (Obj [(''running'', Bool True)])\<rparr>)) \<and>
   isLoading (run initial (butlast (startBot sample_runtime sample_config ''12:00:00''
     (Responded \<lparr>status = 200, json = Inr (Obj [])\<rparr>)
     (Responded \<lparr>status = 200, json = Inr (Obj [(''running'', Bool True)])\<rparr>)))) \<and>
   botStatus (run initial (butlast (startBot sample_runtime sample_config ''12:00:00''
     (Responded \<lparr>status = 200, json = Inr (Obj [])\<rparr>)
     (Responded \<lparr>status = 200, json = Inr (Obj [(''running'', Bool True)])\<rparr>)))) =
     Obj [(''running'', Bool True)] \<and>
   botStatus (run initial (stopBot sample_runtime ''12:00:00''
     (Responded \<lparr>status = 200, json = Inr (Obj [])\<rparr>)
     (Responded \<lparr>status = 200, json = Inr (Obj [(''running'', Bool True)])\<rparr>))) =
     Obj [(''running'', Bool True)]"
proof -
  have o: "ok \<lparr>status = 200, json = Inr (Obj [])\<rparr>"
    by (simp add: ok_def)
  have j: "json \<lparr>status = 200, json = Inr (Obj [])\<rparr> = Inr (Obj [])"
    by simp
  have k: "truthy (obj_get sample_config ''api_key'') \<and> truthy (obj_get sample_config ''secret_key'')"
    by (simp add: sample_config_def obj_get_def)
  show ?thesis
    using release_after_refresh [OF refl o j, of sample_config sample_runtime "''12:00:00''"
        "Responded \<lparr>status = 200, json = Inr (Obj [(''running'', Bool True)])\<rparr>" initial] o k
    by auto
qed


section \<open>The status grid\<close>

text \<open>
  Claim C7 says that a numeric field of the snapshot that is present with the value 0 is
  rendered. The grid tests each optional field with \<^verbatim>\<open>&&\<close>: for the snapshot
  \<^verbatim>\<open>{"running": true, "best_bid": 0}\<close> the only status item is the state, and the child
  at the place of the best bid is the bare number 0, which React prints as a lone
  \<^verbatim>\<open>0\<close> with neither label nor item around it; with \<^verbatim>\<open>best_bid\<close> 1 the item is there.
\<close>

theorem status_grid_hides_zero:
  "status_grid (Obj [(''running'', Bool True), (''best_bid'', Number (Fin 0))]) =
     Some [StatusItem label_state (Str text_running), Bare Undefined, Bare (Number (Fin 0)),
           Bare Undefined, Bare Undefined, Bare Undefined] \<and>
   map_option shown_labels
     (status_grid (Obj [(''running'', Bool True), (''best_bid'', Number (Fin 0))])) =
     Some [label_state] \<and>
   map_option shown_labels
     (status_grid (Obj [(''running'', Bool True), (''best_bid'', Number (Fin 1))])) =
     Some [label_state, label_best_bid]"
  by (simp add: status_grid_def nullish_def optional_item_def js_and_def obj_get_def
      shown_labels_def)


section \<open>The configuration\<close>

lemma obj_get_obj_set:
  "obj_get (obj_set k v ps) k' = (if k' = k then v else obj_get ps k')"
  by (induction ps) (auto simp: obj_get_def)

lemma form_inputs_type:
  "map_of form_inputs name = Some ty \<Longrightarrow> (ty = ''number'') = (name \<in> set numeric_fields)"
  by (auto simp: form_inputs_def numeric_fields_def split: if_splits)

lemma config_onChange:
  "config (run s (onChange rt name val)) =
     (case map_of form_inputs name of
        None \<Rightarrow> config s
      | Some ty \<Rightarrow>
          obj_set name (if ty = ''number'' then Number (parseFloat rt val) else Str val) (config s))"
  by (simp add: onChange_def handleInputChange_def run_simps split: option.split)

lemma numeric_ok_onChange:
  assumes "numeric_ok (config s)"
  shows "numeric_ok (config (run s (onChange rt name val)))"
proof (cases "map_of form_inputs name")
  case None
  with assms show ?thesis by (simp add: config_onChange)
next
  case (Some ty)
  from form_inputs_type [OF Some] assms show ?thesis
    unfolding config_onChange Some numeric_ok_def
    by (auto simp: obj_get_obj_set numeric_fields_def)
qed

lemma numeric_ok_onChanges:
  "numeric_ok (config s) \<Longrightarrow> numeric_ok (config (run s (onChanges rt evs)))"
proof (induction evs arbitrary: s)
  case Nil
  then show ?case by (simp add: run_Nil)
next
  case (Cons ev evs)
  obtain name val where ev: "ev = (name, val)" by (cases ev)
  from Cons.prems have "numeric_ok (config (run s (onChange rt name val)))"
    by (rule numeric_ok_onChange)
  then have "numeric_ok (config (run (run s (onChange rt name val)) (onChanges rt evs)))"
    by (rule Cons.IH)
  then show ?case by (simp add: ev run_append)
qed

lemma numeric_ok_initial: "numeric_ok (config initial)"
  by (simp add: numeric_ok_def initial_def obj_get_def)

text \<open>
  Claim C8. After any sequence of changes made through the form, starting at mount or
  in any state whose three numeric fields hold numbers, these fields hold numbers. A
  change of an input of the form stores \<^verbatim>\<open>parseFloat\<close> of the text, as it is, when the
  field is one of the three numeric fields, and the text itself otherwise; no other
  field changes.
\<close>

theorem numeric_fields_hold_numbers:
  "numeric_ok (config (run initial (onChanges rt evs))) \<and>
   (numeric_ok (config s) \<longrightarrow> numeric_ok (config (run s (onChanges rt evs)))) \<and>
   (name \<in> fst ` set form_inputs \<longrightarrow>
      obj_get (config (run s (onChange rt name val))) name =
        (if name \<in> set numeric_fields then Number (parseFloat rt val) else Str val) \<and>
      (\<forall>other. other \<noteq> name \<longrightarrow>
         obj_get (config (run s (onChange rt name val))) other = obj_get (config s) other))"
proof (intro conjI impI allI)
  show "numeric_ok (config (run initial (onChanges rt evs)))"
    using numeric_ok_initial by (rule numeric_ok_onChanges)
next
  assume "numeric_ok (config s)"
  then show "numeric_ok (config (run s (onChanges rt evs)))"
    by (rule numeric_ok_onChanges)
next
  assume "name \<in> fst ` set form_inputs"
  then obtain ty where ty: "map_of form_inputs name = Some ty"
    by (cases "map_of form_inputs name") (simp_all add: map_of_eq_None_iff)
  note n = form_inputs_type [OF ty]
  show "obj_get (config (run s (onChange rt name val))) name =
      (if name \<in> set numeric_fields then Number (parseFloat rt val) else Str val)"
    using n by (simp add: config_onChange ty obj_get_obj_set)
  show "obj_get (config (run s (onChange rt name val))) other = obj_get (config s) other"
    if "other \<noteq> name" for other
    using that by (simp add: config_onChange ty obj_get_obj_set)
qed

text \<open>A deviation of 0.9, above the maximum the input suggests, is stored as the
  number 0.9; clearing the buy quantity stores NaN, which is a number; the text \<^verbatim>\<open>2\<close>
  typed as the pair stays a string.\<close>

theorem numeric_fields_hold_numbers_witness:
  "numeric_ok (config (run initial (onChanges sample_runtime
     [(''max_price_deviation'', ''0.9''), (''buy_quantity'', ''''), (''symbol'', ''2'')]))) \<and>
   ''max_price_deviation'' \<in> fst ` set form_inputs \<and>
   obj_get (config (run initial (onChange sample_runtime ''max_price_deviation'' ''0.9'')))
     ''max_price_deviation'' = Number (Fin (9 / 10)) \<and>
   ''symbol'' \<in> fst ` set form_inputs \<and>
   obj_get (config (run initial (onChange sample_runtime ''symbol'' ''2''))) ''symbol'' = Str ''2''"
proof -
  have m: "''max_price_deviation'' \<in> fst ` set form_inputs" "''symbol'' \<in> fst ` set form_inputs"
    by (simp_all add: form_inputs_def)
  show ?thesis
    using numeric_fields_hold_numbers [of sample_runtime
        "[(''max_price_deviation'', ''0.9''), (''buy_quantity'', ''''), (''symbol'', ''2'')]"
        initial "''max_price_deviation''" "''0.9''"]
      numeric_fields_hold_numbers [of sample_runtime "[]" initial "''symbol''" "''2''"] m
    by (simp add: numeric_fields_def sample_runtime_def)
qed

end
